theory Spec2Isabelle
  imports Main
begin

section \<open>Data model of server.js\<close>

text \<open>
  The server keeps its data in three Mongoose collections. The request lifecycle reads
  and writes two of them, \<open>hospitals\<close> and \<open>requests\<close>. Documents are
  records, enumerated strings are datatypes, and a field that the schema does not mark
  \<open>required\<close> is an option. A Mongo ObjectId is a natural number. The schema type
  Number stands for whole unit counts here and is an \<open>int\<close>: nothing in the
  schema bounds it from below. The timestamps \<open>createdAt\<close> and \<open>updatedAt\<close>
  are left out: no route of the lifecycle reads them.
\<close>

type_synonym objectId = nat

text \<open>The enum \<open>['A+', 'A-', 'B+', 'B-', 'AB+', 'AB-', 'O+', 'O-']\<close>.\<close>

datatype blood_group = APos | ANeg | BPos | BNeg | ABPos | ABNeg | OPos | ONeg

text \<open>The enum \<open>['Kidney', 'Liver', 'Heart', 'Lung', 'Pancreas', 'Cornea']\<close>.\<close>

datatype organ = Kidney | Liver | Heart | Lung | Pancreas | Cornea

text \<open>\<open>requestType\<close>: the enum \<open>['Oxygen', 'Blood', 'Organ']\<close>.\<close>

datatype request_kind = Oxygen | Blood | Organ

text \<open>\<open>status\<close>: the enum \<open>['Open', 'Accepted', 'Closed', 'Rejected']\<close>.\<close>

datatype request_status = Open | Accepted | Closed | Rejected

text \<open>An element of \<open>details.organAvailability\<close> in HospitalSchema.\<close>

record organOffer =
  offer_organName :: organ
  offer_bloodGroup :: blood_group
  offer_age :: int
  offer_notes :: "string option"

text \<open>
  \<open>details\<close> of HospitalSchema. The eight named counters of
  \<open>bloodAvailability\<close> are a function of the blood group, since the accept route
  addresses them by a computed key.
\<close>

record hospitalDetails =
  oxygenCylinders_total :: int
  bloodAvailability :: "blood_group \<Rightarrow> int"
  organAvailability :: "organOffer list"

record hospital =
  hospitalName :: string
  email :: string
  password :: string
  address :: "string option"
  phone :: "string option"
  hdetails :: hospitalDetails

text \<open>\<open>details\<close> of RequestSchema: none of its three fields is required.\<close>

record requestDetails =
  bloodGroup :: "blood_group option"
  quantity :: "int option"
  organName :: "organ option"

record request =
  requestingHospital :: objectId
  providingHospital :: "objectId option"
  requestType :: request_kind
  status :: request_status
  details :: requestDetails
  description :: string

text \<open>The two collections, each a map from \<open>_id\<close> to the document.\<close>

record db =
  hospitals :: "objectId \<rightharpoonup> hospital"
  requests :: "objectId \<rightharpoonup> request"

text \<open>
  The session that express-session attaches to a call. The login route sets
  \<open>userId\<close> and \<open>userType\<close> together, and finds a user only for the types
  \<open>'hospital'\<close> and \<open>'admin'\<close>; a session that never logged in has no
  \<open>userId\<close>.
\<close>

datatype user_type = HospitalUser | AdminUser

record session =
  userId :: "objectId option"
  userType :: user_type

text \<open>
  The error responses of the lifecycle routes, named as the specification names them:
  \<^item> \<open>Unauthenticated\<close>: 401 \<open>Unauthorized\<close>, from \<open>isAuthenticated\<close>;
  \<^item> \<open>NotFound\<close>: 404 \<open>Request not found.\<close>;
  \<^item> \<open>InvalidState\<close>: 400 \<open>This request is no longer open.\<close>;
  \<^item> \<open>SelfAction\<close>: 400 \<open>You cannot accept your own request.\<close> (or reject);
  \<^item> \<open>Forbidden\<close>: 403 \<open>Not authorized\<close>;
  \<^item> \<open>InvalidArgument\<close>: 400 \<open>Invalid status. Only successful fulfillment is allowed.\<close>;
  \<^item> \<open>ServerError\<close>: 500, the \<open>catch\<close> branch of a route.

  Every error return of a route stands before its first write, so an error leaves the
  database as it was: a route returns either an error or the database after it.
\<close>

datatype error =
    Unauthenticated
  | NotFound
  | InvalidState
  | SelfAction
  | Forbidden
  | InvalidArgument
  | ServerError

section \<open>The store operations the routes call\<close>

text \<open>
  The update documents that the accept route builds: \<open>$inc\<close> of one path by a
  number, or \<open>$pull\<close> from \<open>details.organAvailability\<close> by a condition
  on \<open>organName\<close> and \<open>bloodGroup\<close>. The blood path is
  \<open>details.bloodAvailability.\<close> followed by the blood group of the request, so it
  carries the request's optional blood group; the number is the negated optional
  quantity.
\<close>

datatype incPath = BloodAvailabilityPath "blood_group option" | OxygenTotalPath

datatype update =
    Inc incPath "int option"
  | Pull "organ option" "blood_group option"

text \<open>
  The condition of \<open>$pull\<close>: an offer matches when both of its fields equal the
  ones given. Both fields of a stored offer are required, so a condition with a missing
  field matches no offer.
\<close>

definition offerMatches :: "organ option \<Rightarrow> blood_group option \<Rightarrow> organOffer \<Rightarrow> bool" where
  "offerMatches on bg x = (on = Some (offer_organName x) \<and> bg = Some (offer_bloodGroup x))"

text \<open>
  What Mongoose and MongoDB do with an update document on the \<open>details\<close> of a
  hospital:
  \<^item> \<open>$inc\<close> adds the number to the counter at the path;
  \<open>$pull\<close> removes every element of the array that matches the condition (all
  of them, not the first one);
  \<^item> a blood path built from a missing blood group names no path of the schema, and
  the schema's strict mode drops it from the update, which then changes nothing;
  \<^item> the negation of a missing quantity is NaN, which fails the cast to Number: the
  call throws before anything is written.
\<close>

fun castUpdate :: "update \<Rightarrow> error + (hospitalDetails \<Rightarrow> hospitalDetails)" where
  "castUpdate (Inc (BloodAvailabilityPath None) v) = Inr (\<lambda>d. d)"
| "castUpdate (Inc p None) = Inl ServerError"
| "castUpdate (Inc (BloodAvailabilityPath (Some g)) (Some n)) =
     Inr (\<lambda>d. d\<lparr>bloodAvailability := (bloodAvailability d)(g := bloodAvailability d g + n)\<rparr>)"
| "castUpdate (Inc OxygenTotalPath (Some n)) =
     Inr (\<lambda>d. d\<lparr>oxygenCylinders_total := oxygenCylinders_total d + n\<rparr>)"
| "castUpdate (Pull on bg) =
     Inr (\<lambda>d. d\<lparr>organAvailability := filter (\<lambda>x. \<not> offerMatches on bg x) (organAvailability d)\<rparr>)"

text \<open>
  \<open>Hospital.findByIdAndUpdate(id, update)\<close>: the update is cast first; then the
  document with that id is updated, and when there is none the call changes nothing and
  does not throw.
\<close>

definition Hospital_findByIdAndUpdate :: "db \<Rightarrow> objectId \<Rightarrow> update \<Rightarrow> error + db" where
  "Hospital_findByIdAndUpdate s hid u =
     (case castUpdate u of
        Inl e \<Rightarrow> Inl e
      | Inr f \<Rightarrow>
          (case hospitals s hid of
             None \<Rightarrow> Inr s
           | Some h \<Rightarrow> Inr (s\<lparr>hospitals := (hospitals s)(hid \<mapsto> h\<lparr>hdetails := f (hdetails h)\<rparr>)\<rparr>)))"

text \<open>
  \<open>Request.findByIdAndUpdate(id, fields)\<close>, with the assignment of the fields as a
  function on the document.
\<close>

definition Request_findByIdAndUpdate :: "db \<Rightarrow> objectId \<Rightarrow> (request \<Rightarrow> request) \<Rightarrow> db" where
  "Request_findByIdAndUpdate s rid f =
     (case requests s rid of
        None \<Rightarrow> s
      | Some r \<Rightarrow> s\<lparr>requests := (requests s)(rid \<mapsto> f r)\<rparr>)"

text \<open>\<open>Request.findByIdAndDelete(id)\<close>.\<close>

definition Request_findByIdAndDelete :: "db \<Rightarrow> objectId \<Rightarrow> db" where
  "Request_findByIdAndDelete s rid = s\<lparr>requests := (requests s)(rid := None)\<rparr>"

section \<open>The lifecycle routes\<close>

text \<open>
  The update of the provider's inventory that \<open>POST /api/requests/accept\<close>
  computes from the request (lines 251 to 258).
\<close>

definition acceptUpdate :: "request \<Rightarrow> update" where
  "acceptUpdate r =
     (case requestType r of
        Blood \<Rightarrow> Inc (BloodAvailabilityPath (bloodGroup (details r)))
                   (map_option uminus (quantity (details r)))
      | Oxygen \<Rightarrow> Inc OxygenTotalPath (map_option uminus (quantity (details r)))
      | Organ \<Rightarrow> Pull (organName (details r)) (bloodGroup (details r)))"

text \<open>
  \<open>POST /api/requests/accept\<close> (lines 240 to 271), behind
  \<open>isAuthenticated\<close>. The provider is the \<open>userId\<close> of the session; the
  type of the user is not read.
\<close>

definition acceptRequest :: "db \<Rightarrow> session \<Rightarrow> objectId \<Rightarrow> error + db" where
  "acceptRequest s sess requestId =
     (case userId sess of
        None \<Rightarrow> Inl Unauthenticated
      | Some providerHospitalId \<Rightarrow>
          (case requests s requestId of
             None \<Rightarrow> Inl NotFound
           | Some r \<Rightarrow>
               if status r \<noteq> Open then Inl InvalidState
               else if requestingHospital r = providerHospitalId then Inl SelfAction
               else
                 (case Hospital_findByIdAndUpdate s providerHospitalId (acceptUpdate r) of
                    Inl e \<Rightarrow> Inl e
                  | Inr s1 \<Rightarrow>
                      Inr (Request_findByIdAndUpdate s1 requestId
                            (\<lambda>q. q\<lparr>status := Accepted,
                                   providingHospital := Some providerHospitalId\<rparr>)))))"

text \<open>\<open>POST /api/requests/reject\<close> (lines 311 to 333).\<close>

definition rejectRequest :: "db \<Rightarrow> session \<Rightarrow> objectId \<Rightarrow> error + db" where
  "rejectRequest s sess requestId =
     (case userId sess of
        None \<Rightarrow> Inl Unauthenticated
      | Some providerHospitalId \<Rightarrow>
          (case requests s requestId of
             None \<Rightarrow> Inl NotFound
           | Some r \<Rightarrow>
               if status r \<noteq> Open then Inl InvalidState
               else if requestingHospital r = providerHospitalId then Inl SelfAction
               else
                 Inr (Request_findByIdAndUpdate s requestId
                       (\<lambda>q. q\<lparr>status := Rejected,
                              providingHospital := Some providerHospitalId\<rparr>))))"

text \<open>\<open>POST /api/requests/cancel\<close> (lines 273 to 286).\<close>

definition cancelRequest :: "db \<Rightarrow> session \<Rightarrow> objectId \<Rightarrow> error + db" where
  "cancelRequest s sess requestId =
     (case userId sess of
        None \<Rightarrow> Inl Unauthenticated
      | Some uid \<Rightarrow>
          (case requests s requestId of
             None \<Rightarrow> Inl NotFound
           | Some r \<Rightarrow>
               if requestingHospital r \<noteq> uid then Inl Forbidden
               else Inr (Request_findByIdAndDelete s requestId)))"

text \<open>
  \<open>POST /api/requests/finalize\<close> (lines 288 to 308). \<open>finalStatus\<close> is the
  field of the body, absent or a string; past the comparison with \<open>'Closed'\<close> it is
  that string, so the status written is \<open>Closed\<close>.
\<close>

definition finalizeRequest :: "db \<Rightarrow> session \<Rightarrow> objectId \<Rightarrow> string option \<Rightarrow> error + db" where
  "finalizeRequest s sess requestId finalStatus =
     (case userId sess of
        None \<Rightarrow> Inl Unauthenticated
      | Some uid \<Rightarrow>
          (case requests s requestId of
             None \<Rightarrow> Inl NotFound
           | Some r \<Rightarrow>
               if requestingHospital r \<noteq> uid then Inl Forbidden
               else if finalStatus \<noteq> Some ''Closed'' then Inl InvalidArgument
               else Inr (Request_findByIdAndUpdate s requestId (\<lambda>q. q\<lparr>status := Closed\<rparr>))))"




section \<open>The accept route, one store call at a time\<close>

text \<open>
  The accept handler is an \<open>async\<close> function with three awaited store calls:
  \<open>Request.findById\<close> (line 244), \<open>Hospital.findByIdAndUpdate\<close>
  (line 260) and \<open>Request.findByIdAndUpdate\<close> (line 261). Each store call acts
  on the database at once; between two of them the handler is suspended and another
  handler may run. A phase says at which call a handler stands and what it holds in
  its local variables: the provider's id and, before the hospital update, the request
  document it has read.
\<close>

datatype acceptPhase =
    AwaitFind
  | AwaitHospitalUpdate objectId request
  | AwaitRequestUpdate objectId
  | Responded "error option"

text \<open>
  One store call of a handler together with the code that follows it up to the next
  \<open>await\<close>. \<open>Responded None\<close> is the answer 200. The checks of lines 245
  to 249 are made on the document that \<open>findById\<close> returned; the update of line
  261 names the request by its id alone.
\<close>

fun acceptStep :: "session \<Rightarrow> objectId \<Rightarrow> db \<Rightarrow> acceptPhase \<Rightarrow> db \<times> acceptPhase" where
  "acceptStep sess requestId s AwaitFind =
     (case userId sess of
        None \<Rightarrow> (s, Responded (Some Unauthenticated))
      | Some providerHospitalId \<Rightarrow>
          (case requests s requestId of
             None \<Rightarrow> (s, Responded (Some NotFound))
           | Some r \<Rightarrow>
               if status r \<noteq> Open then (s, Responded (Some InvalidState))
               else if requestingHospital r = providerHospitalId
               then (s, Responded (Some SelfAction))
               else (s, AwaitHospitalUpdate providerHospitalId r)))"
| "acceptStep sess requestId s (AwaitHospitalUpdate providerHospitalId r) =
     (case Hospital_findByIdAndUpdate s providerHospitalId (acceptUpdate r) of
        Inl e \<Rightarrow> (s, Responded (Some e))
      | Inr s1 \<Rightarrow> (s1, AwaitRequestUpdate providerHospitalId))"
| "acceptStep sess requestId s (AwaitRequestUpdate providerHospitalId) =
     (Request_findByIdAndUpdate s requestId
        (\<lambda>q. q\<lparr>status := Accepted, providingHospital := Some providerHospitalId\<rparr>),
      Responded None)"
| "acceptStep sess requestId s (Responded x) = (s, Responded x)"

text \<open>
  Two accept handlers over one database. A schedule names, turn by turn, the handler
  whose next store call is served.
\<close>

datatype turn = First | Second

fun interleave ::
  "session \<Rightarrow> objectId \<Rightarrow> session \<Rightarrow> objectId \<Rightarrow> turn list
     \<Rightarrow> db \<Rightarrow> acceptPhase \<Rightarrow> acceptPhase \<Rightarrow> db \<times> acceptPhase \<times> acceptPhase" where
  "interleave sa ra sb rb [] s pa pb = (s, pa, pb)"
| "interleave sa ra sb rb (First # ts) s pa pb =
     (case acceptStep sa ra s pa of (s', pa') \<Rightarrow> interleave sa ra sb rb ts s' pa' pb)"
| "interleave sa ra sb rb (Second # ts) s pa pb =
     (case acceptStep sb rb s pb of (s', pb') \<Rightarrow> interleave sa ra sb rb ts s' pa pb')"

text \<open>
  The position of a status along the lifecycle: Open first, then Accepted or Rejected,
  then Closed.
\<close>

fun statusRank :: "request_status \<Rightarrow> nat" where
  "statusRank Open = 0"
| "statusRank Accepted = 1"
| "statusRank Rejected = 1"
| "statusRank Closed = 2"

section \<open>A concrete database\<close>

text \<open>
  Hospital A (id 10) holds 5 units of O+ blood. Hospital B (id 20) holds 4 oxygen
  cylinders, 10 units of O+ blood, two kidney offers of group O+ and one liver offer of
  group A+. Hospital C (id 30) holds 1 unit of O+ blood. A has posted four requests, all
  Open: 3 units of O+ blood (id 1), 6 oxygen cylinders (id 2), a kidney of group O+
  (id 3) and a heart of group O+ (id 4). The admin has id 99, which is no hospital's id.
\<close>

definition ex_offer :: "organ \<Rightarrow> blood_group \<Rightarrow> int \<Rightarrow> organOffer" where
  "ex_offer on bg a =
     \<lparr>offer_organName = on, offer_bloodGroup = bg, offer_age = a, offer_notes = None\<rparr>"

definition ex_hospital :: "string \<Rightarrow> hospitalDetails \<Rightarrow> hospital" where
  "ex_hospital n d =
     \<lparr>hospitalName = n, email = n @ ''@example.org'', password = ''hash'',
      address = None, phone = None, hdetails = d\<rparr>"

definition ex_details_A :: hospitalDetails where
  "ex_details_A =
     \<lparr>oxygenCylinders_total = 0,
      bloodAvailability = (\<lambda>g. 0)(OPos := 5),
      organAvailability = []\<rparr>"

definition ex_details_B :: hospitalDetails where
  "ex_details_B =
     \<lparr>oxygenCylinders_total = 4,
      bloodAvailability = (\<lambda>g. 0)(OPos := 10),
      organAvailability = [ex_offer Kidney OPos 30, ex_offer Liver APos 50, ex_offer Kidney OPos 40]\<rparr>"

definition ex_details_C :: hospitalDetails where
  "ex_details_C =
     \<lparr>oxygenCylinders_total = 0,
      bloodAvailability = (\<lambda>g. 0)(OPos := 1),
      organAvailability = []\<rparr>"

definition ex_request :: "request_kind \<Rightarrow> requestDetails \<Rightarrow> request" where
  "ex_request k d =
     \<lparr>requestingHospital = 10, providingHospital = None, requestType = k, status = Open,
      details = d, description = ''urgent''\<rparr>"

definition ex_blood_request :: request where
  "ex_blood_request =
     ex_request Blood \<lparr>bloodGroup = Some OPos, quantity = Some 3, organName = None\<rparr>"

definition ex_oxygen_request :: request where
  "ex_oxygen_request =
     ex_request Oxygen \<lparr>bloodGroup = None, quantity = Some 6, organName = None\<rparr>"

definition ex_kidney_request :: request where
  "ex_kidney_request =
     ex_request Organ \<lparr>bloodGroup = Some OPos, quantity = None, organName = Some Kidney\<rparr>"

definition ex_heart_request :: request where
  "ex_heart_request =
     ex_request Organ \<lparr>bloodGroup = Some OPos, quantity = None, organName = Some Heart\<rparr>"

definition ex_db :: db where
  "ex_db =
     \<lparr>hospitals = [10 \<mapsto> ex_hospital ''A'' ex_details_A, 20 \<mapsto> ex_hospital ''B'' ex_details_B,
                   30 \<mapsto> ex_hospital ''C'' ex_details_C],
      requests = [1 \<mapsto> ex_blood_request, 2 \<mapsto> ex_oxygen_request,
                  3 \<mapsto> ex_kidney_request, 4 \<mapsto> ex_heart_request]\<rparr>"

definition session_A :: session where
  "session_A = \<lparr>userId = Some 10, userType = HospitalUser\<rparr>"

definition session_B :: session where
  "session_B = \<lparr>userId = Some 20, userType = HospitalUser\<rparr>"

definition session_C :: session where
  "session_C = \<lparr>userId = Some 30, userType = HospitalUser\<rparr>"

definition session_admin :: session where
  "session_admin = \<lparr>userId = Some 99, userType = AdminUser\<rparr>"

text \<open>The database after B has rejected request 1.\<close>

definition ex_db_rejected :: db where
  "ex_db_rejected =
     ex_db\<lparr>requests := (requests ex_db)
       (1 \<mapsto> ex_blood_request\<lparr>status := Rejected, providingHospital := Some 20\<rparr>)\<rparr>"





lemmas ex_defs =
  ex_db_def ex_hospital_def ex_details_A_def ex_details_B_def ex_offer_def ex_request_def
  ex_blood_request_def ex_oxygen_request_def ex_kidney_request_def ex_heart_request_def
  ex_details_C_def session_A_def session_B_def session_C_def session_admin_def

section \<open>What a successful call has written\<close>

lemma Hospital_findByIdAndUpdate_requests:
  "Hospital_findByIdAndUpdate s hid u = Inr s1 \<Longrightarrow> requests s1 = requests s"
  by (auto simp: Hospital_findByIdAndUpdate_def split: sum.splits option.splits)

lemma acceptRequest_InrD:
  assumes "acceptRequest s sess R = Inr s'"
  shows "\<exists>P r. userId sess = Some P \<and> requests s R = Some r \<and> status r = Open
           \<and> requestingHospital r \<noteq> P
           \<and> requests s' = (requests s)(R \<mapsto> r\<lparr>status := Accepted, providingHospital := Some P\<rparr>)"
proof -
  from assms obtain P r s1 where u: "userId sess = Some P"
    and q: "requests s R = Some r" and o: "status r = Open" and n: "requestingHospital r \<noteq> P"
    and h: "Hospital_findByIdAndUpdate s P (acceptUpdate r) = Inr s1"
    and e: "s' = Request_findByIdAndUpdate s1 R
                   (\<lambda>q. q\<lparr>status := Accepted, providingHospital := Some P\<rparr>)"
    by (auto simp: acceptRequest_def split: option.splits if_splits sum.splits)
  from h have "requests s1 = requests s" by (rule Hospital_findByIdAndUpdate_requests)
  with q e have "requests s' = (requests s)(R \<mapsto> r\<lparr>status := Accepted, providingHospital := Some P\<rparr>)"
    by (simp add: Request_findByIdAndUpdate_def)
  with u q o n show ?thesis by blast
qed

lemma rejectRequest_InrD:
  assumes "rejectRequest s sess R = Inr s'"
  shows "\<exists>P r. userId sess = Some P \<and> requests s R = Some r \<and> status r = Open
           \<and> requestingHospital r \<noteq> P
           \<and> requests s' = (requests s)(R \<mapsto> r\<lparr>status := Rejected, providingHospital := Some P\<rparr>)"
  using assms
  by (auto simp: rejectRequest_def Request_findByIdAndUpdate_def
      split: option.splits if_splits)

lemma finalizeRequest_InrD:
  assumes "finalizeRequest s sess R fs = Inr s'"
  shows "\<exists>r. userId sess = Some (requestingHospital r) \<and> requests s R = Some r
           \<and> fs = Some ''Closed''
           \<and> requests s' = (requests s)(R \<mapsto> r\<lparr>status := Closed\<rparr>)"
  using assms
  by (auto simp: finalizeRequest_def Request_findByIdAndUpdate_def
      split: option.splits if_splits)

text \<open>
  Run one after the other, a second accept or reject of a request that has been accepted
  answers \<open>This request is no longer open.\<close>, whoever sends it.
\<close>

lemma accepted_request_is_closed_to_providers:
  assumes "acceptRequest s sess R = Inr s'"
    and "userId sess2 = Some Q"
  shows "acceptRequest s' sess2 R = Inl InvalidState \<and> rejectRequest s' sess2 R = Inl InvalidState"
proof -
  from assms(1) obtain P r where
    "requests s' = (requests s)(R \<mapsto> r\<lparr>status := Accepted, providingHospital := Some P\<rparr>)"
    using acceptRequest_InrD by blast
  with assms(2) show ?thesis by (simp add: acceptRequest_def rejectRequest_def)
qed

text \<open>
  No successful accept, reject or finalize removes a request, changes its requesting
  hospital or lowers the rank of its status, and a Closed request stays Closed.
\<close>

lemma lifecycle_never_moves_back:
  assumes "acceptRequest s sess R = Inr s' \<or> rejectRequest s sess R = Inr s'
           \<or> finalizeRequest s sess R fs = Inr s'"
    and "requests s R' = Some r"
  shows "\<exists>r'. requests s' R' = Some r'
           \<and> requestingHospital r' = requestingHospital r
           \<and> statusRank (status r) \<le> statusRank (status r')
           \<and> (status r = Closed \<longrightarrow> status r' = Closed)"
proof -
  consider (a) "acceptRequest s sess R = Inr s'" | (b) "rejectRequest s sess R = Inr s'"
    | (c) "finalizeRequest s sess R fs = Inr s'"
    using assms(1) by blast
  then show ?thesis
  proof cases
    case a
    then obtain P r0 where "requests s R = Some r0" "status r0 = Open"
      "requests s' = (requests s)(R \<mapsto> r0\<lparr>status := Accepted, providingHospital := Some P\<rparr>)"
      using acceptRequest_InrD by blast
    with assms(2) show ?thesis by (cases "R' = R") auto
  next
    case b
    then obtain P r0 where "requests s R = Some r0" "status r0 = Open"
      "requests s' = (requests s)(R \<mapsto> r0\<lparr>status := Rejected, providingHospital := Some P\<rparr>)"
      using rejectRequest_InrD by blast
    with assms(2) show ?thesis by (cases "R' = R") auto
  next
    case c
    then obtain r0 where "requests s R = Some r0"
      "requests s' = (requests s)(R \<mapsto> r0\<lparr>status := Closed\<rparr>)"
      using finalizeRequest_InrD by blast
    with assms(2) show ?thesis by (cases "R' = R") (auto, cases "status r", auto)
  qed
qed

text \<open>
  The owner's cancel deletes the request whatever its status is, and touches no
  hospital.
\<close>

lemma cancel_by_owner_deletes:
  assumes "userId sess = Some P"
    and "requests s R = Some r"
    and "requestingHospital r = P"
  shows "cancelRequest s sess R =
           Inr \<lparr>hospitals = hospitals s, requests = (requests s)(R := None)\<rparr>"
  using assms by (simp add: cancelRequest_def Request_findByIdAndDelete_def)

section \<open>Finalizing a request that was never accepted\<close>

text \<open>
  C1. The finalize route checks who calls and which status is asked for, but not the
  status the request has. In the concrete database, B rejects A's Open request 1, which
  makes it Rejected; A then finalizes it with \<open>'Closed'\<close>, the call succeeds, and
  the request has left the state Rejected for Closed.
\<close>

theorem finalize_moves_rejected_to_closed:
  "rejectRequest ex_db session_B 1 = Inr ex_db_rejected
   \<and> map_option status (requests ex_db_rejected 1) = Some Rejected
   \<and> finalizeRequest ex_db_rejected session_A 1 (Some ''Closed'') =
       Inr \<lparr>hospitals = hospitals ex_db,
            requests = (requests ex_db)
              (1 \<mapsto> ex_blood_request\<lparr>status := Closed, providingHospital := Some 20\<rparr>)\<rparr>"
  by (simp add: rejectRequest_def finalizeRequest_def Request_findByIdAndUpdate_def
      ex_db_rejected_def ex_defs)


section \<open>Accepting a request\<close>





text \<open>
  C3, as the code has it. The accept route compares no quantity with the provider's
  stock. Let \<open>R\<close> be an Open request with a quantity that the acting hospital
  \<open>P\<close>, a stored hospital, does not own. If it is a Blood request for a group of
  which \<open>P\<close> holds less than the quantity, or an Oxygen request for more than
  \<open>P\<close>'s oxygen total, accepting still succeeds, and \<open>P\<close>'s count is the old
  count less the quantity, a negative number.
\<close>

theorem accept_debit_unchecked:
  assumes "userId sess = Some P"
    and "requests s R = Some r"
    and "status r = Open"
    and "requestingHospital r \<noteq> P"
    and "hospitals s P = Some h"
    and "quantity (details r) = Some q"
  shows "(\<forall>g. requestType r = Blood \<and> bloodGroup (details r) = Some g
               \<and> bloodAvailability (hdetails h) g < q \<longrightarrow>
            (\<exists>s' h'. acceptRequest s sess R = Inr s' \<and> hospitals s' P = Some h'
               \<and> bloodAvailability (hdetails h') g = bloodAvailability (hdetails h) g - q
               \<and> bloodAvailability (hdetails h') g < 0))
       \<and> (requestType r = Oxygen \<and> oxygenCylinders_total (hdetails h) < q \<longrightarrow>
            (\<exists>s' h'. acceptRequest s sess R = Inr s' \<and> hospitals s' P = Some h'
               \<and> oxygenCylinders_total (hdetails h') = oxygenCylinders_total (hdetails h) - q
               \<and> oxygenCylinders_total (hdetails h') < 0))"
  using assms
  by (simp add: acceptRequest_def acceptUpdate_def Hospital_findByIdAndUpdate_def
      Request_findByIdAndUpdate_def)

text \<open>
  C, with 1 unit of O+, accepts the request for 3 units; B, with 4 cylinders, accepts the
  request for 6.
\<close>

theorem accept_debit_unchecked_witness:
  "userId session_C = Some 30
   \<and> hospitals ex_db 30 = Some (ex_hospital ''C'' ex_details_C)
   \<and> requests ex_db 1 = Some ex_blood_request
   \<and> status ex_blood_request = Open
   \<and> requestingHospital ex_blood_request \<noteq> 30
   \<and> requestType ex_blood_request = Blood
   \<and> bloodGroup (details ex_blood_request) = Some OPos
   \<and> quantity (details ex_blood_request) = Some 3
   \<and> bloodAvailability (hdetails (ex_hospital ''C'' ex_details_C)) OPos < 3
   \<and> (\<exists>s' h'. acceptRequest ex_db session_C 1 = Inr s' \<and> hospitals s' 30 = Some h'
         \<and> bloodAvailability (hdetails h') OPos = - 2)
   \<and> userId session_B = Some 20
   \<and> hospitals ex_db 20 = Some (ex_hospital ''B'' ex_details_B)
   \<and> requests ex_db 2 = Some ex_oxygen_request
   \<and> status ex_oxygen_request = Open
   \<and> requestingHospital ex_oxygen_request \<noteq> 20
   \<and> requestType ex_oxygen_request = Oxygen
   \<and> quantity (details ex_oxygen_request) = Some 6
   \<and> oxygenCylinders_total (hdetails (ex_hospital ''B'' ex_details_B)) < 6
   \<and> (\<exists>s' h'. acceptRequest ex_db session_B 2 = Inr s' \<and> hospitals s' 20 = Some h'
         \<and> oxygenCylinders_total (hdetails h') = - 2)"
proof -
  have uc: "userId session_C = Some 30" by (simp add: session_C_def)
  have hc: "hospitals ex_db 30 = Some (ex_hospital ''C'' ex_details_C)" by (simp add: ex_db_def)
  have q1: "requests ex_db 1 = Some ex_blood_request" by (simp add: ex_db_def)
  have o1: "status ex_blood_request = Open" "requestingHospital ex_blood_request \<noteq> 30"
    by (simp_all add: ex_blood_request_def ex_request_def)
  have n1: "quantity (details ex_blood_request) = Some 3"
    by (simp add: ex_blood_request_def ex_request_def)
  have d1: "requestType ex_blood_request = Blood
            \<and> bloodGroup (details ex_blood_request) = Some OPos"
    by (simp add: ex_blood_request_def ex_request_def)
  have l1: "bloodAvailability (hdetails (ex_hospital ''C'' ex_details_C)) OPos = 1"
    by (simp add: ex_hospital_def ex_details_C_def)
  have ub: "userId session_B = Some 20" by (simp add: session_B_def)
  have hb: "hospitals ex_db 20 = Some (ex_hospital ''B'' ex_details_B)" by (simp add: ex_db_def)
  have q2: "requests ex_db 2 = Some ex_oxygen_request" by (simp add: ex_db_def)
  have o2: "status ex_oxygen_request = Open" "requestingHospital ex_oxygen_request \<noteq> 20"
    by (simp_all add: ex_oxygen_request_def ex_request_def)
  have n2: "quantity (details ex_oxygen_request) = Some 6"
    by (simp add: ex_oxygen_request_def ex_request_def)
  have d2: "requestType ex_oxygen_request = Oxygen"
    by (simp add: ex_oxygen_request_def ex_request_def)
  have l2: "oxygenCylinders_total (hdetails (ex_hospital ''B'' ex_details_B)) = 4"
    by (simp add: ex_hospital_def ex_details_B_def)
  have b: "\<exists>s' h'. acceptRequest ex_db session_C 1 = Inr s' \<and> hospitals s' 30 = Some h'
         \<and> bloodAvailability (hdetails h') OPos = - 2"
    using accept_debit_unchecked [OF uc q1 o1 hc n1] d1 l1 by auto
  have x: "\<exists>s' h'. acceptRequest ex_db session_B 2 = Inr s' \<and> hospitals s' 20 = Some h'
         \<and> oxygenCylinders_total (hdetails h') = - 2"
    using accept_debit_unchecked [OF ub q2 o2 hb n2] d2 l2 by auto
  from uc hc q1 o1 n1 d1 l1 ub hb q2 o2 n2 d2 l2 b x show ?thesis by simp
qed

text \<open>
  Against C3 as stated (a debit that would go below zero fails and leaves the inventory
  as it was; no count is ever negative): C holds 1 unit of O+ and accepts the request for
  3 units. The call succeeds and C's O+ count is -2.
\<close>

theorem accept_makes_count_negative:
  "map_option (bloodAvailability \<circ> hdetails) (hospitals ex_db 30) = Some (bloodAvailability ex_details_C)
   \<and> bloodAvailability ex_details_C OPos = 1
   \<and> map_option (quantity \<circ> details) (requests ex_db 1) = Some (Some 3)
   \<and> isl (acceptRequest ex_db session_C 1) = False
   \<and> map_option (bloodAvailability \<circ> hdetails)
       (hospitals (projr (acceptRequest ex_db session_C 1)) 30) =
       Some ((bloodAvailability ex_details_C)(OPos := - 2))"
  by (simp add: acceptRequest_def acceptUpdate_def Hospital_findByIdAndUpdate_def
      Request_findByIdAndUpdate_def ex_defs)

section \<open>Creating a request\<close>





section \<open>The checks before accepting or rejecting\<close>

text \<open>
  C5, as the code has it. For an accept or a reject by acting hospital \<open>P\<close> on
  request id \<open>R\<close>, the checks run in this order and the first that applies
  decides: NotFound when no request has id \<open>R\<close>; InvalidState when the request's
  status is not Open; SelfAction when the request is Open and its requesting hospital
  is \<open>P\<close>. So a call on one's own request always fails: with SelfAction while the
  request is Open, with InvalidState once it is not.
\<close>

theorem accept_reject_preconditions:
  assumes "userId sess = Some P"
  shows "(requests s R = None \<longrightarrow>
            acceptRequest s sess R = Inl NotFound \<and> rejectRequest s sess R = Inl NotFound)
       \<and> (\<forall>r. requests s R = Some r \<and> status r \<noteq> Open \<longrightarrow>
            acceptRequest s sess R = Inl InvalidState \<and> rejectRequest s sess R = Inl InvalidState)
       \<and> (\<forall>r. requests s R = Some r \<and> status r = Open \<and> requestingHospital r = P \<longrightarrow>
            acceptRequest s sess R = Inl SelfAction \<and> rejectRequest s sess R = Inl SelfAction)
       \<and> (\<forall>r. requests s R = Some r \<and> requestingHospital r = P \<longrightarrow>
            acceptRequest s sess R \<in> {Inl InvalidState, Inl SelfAction}
            \<and> rejectRequest s sess R \<in> {Inl InvalidState, Inl SelfAction})"
  using assms by (simp add: acceptRequest_def rejectRequest_def)

text \<open>
  B calls on the missing id 7 and on request 1 after it was rejected; A calls on its own
  request 1, Open and then Rejected.
\<close>

theorem accept_reject_preconditions_witness:
  "userId session_A = Some 10 \<and> userId session_B = Some 20
   \<and> requests ex_db 7 = None
   \<and> acceptRequest ex_db session_B 7 = Inl NotFound
   \<and> rejectRequest ex_db session_B 7 = Inl NotFound
   \<and> requests ex_db_rejected 1 =
        Some (ex_blood_request\<lparr>status := Rejected, providingHospital := Some 20\<rparr>)
   \<and> acceptRequest ex_db_rejected session_B 1 = Inl InvalidState
   \<and> rejectRequest ex_db_rejected session_B 1 = Inl InvalidState
   \<and> requests ex_db 1 = Some ex_blood_request
   \<and> status ex_blood_request = Open
   \<and> requestingHospital ex_blood_request = 10
   \<and> acceptRequest ex_db session_A 1 = Inl SelfAction
   \<and> rejectRequest ex_db session_A 1 = Inl SelfAction
   \<and> acceptRequest ex_db_rejected session_A 1 \<in> {Inl InvalidState, Inl SelfAction}
   \<and> rejectRequest ex_db_rejected session_A 1 \<in> {Inl InvalidState, Inl SelfAction}"
proof -
  have a: "userId session_A = Some 10" by (simp add: session_A_def)
  have b: "userId session_B = Some 20" by (simp add: session_B_def)
  have m: "requests ex_db 7 = None" by (simp add: ex_db_def)
  have q: "requests ex_db 1 = Some ex_blood_request" by (simp add: ex_db_def)
  have j: "requests ex_db_rejected 1 =
        Some (ex_blood_request\<lparr>status := Rejected, providingHospital := Some 20\<rparr>)"
    by (simp add: ex_db_rejected_def)
  have o: "status ex_blood_request = Open \<and> requestingHospital ex_blood_request = 10"
    by (simp add: ex_blood_request_def ex_request_def)
  show ?thesis
    using accept_reject_preconditions [OF b, of ex_db 7]
      accept_reject_preconditions [OF b, of ex_db_rejected 1]
      accept_reject_preconditions [OF a, of ex_db 1]
      accept_reject_preconditions [OF a, of ex_db_rejected 1]
      a b m q j o
    by simp
qed

text \<open>
  Against C5 as stated (an accept or reject of one's own request fails SelfAction): A
  owns request 1, which B has rejected. A's accept and A's reject of it answer
  InvalidState, since the check of the status stands before the check of the owner.
\<close>

theorem own_rejected_request_fails_invalid_state:
  "userId session_A = Some 10
   \<and> map_option requestingHospital (requests ex_db_rejected 1) = Some 10
   \<and> map_option status (requests ex_db_rejected 1) = Some Rejected
   \<and> acceptRequest ex_db_rejected session_A 1 = Inl InvalidState
   \<and> rejectRequest ex_db_rejected session_A 1 = Inl InvalidState
   \<and> acceptRequest ex_db_rejected session_A 1 \<noteq> Inl SelfAction
   \<and> rejectRequest ex_db_rejected session_A 1 \<noteq> Inl SelfAction"
  by (simp add: acceptRequest_def rejectRequest_def ex_db_rejected_def ex_defs)

section \<open>Rejecting a request\<close>

text \<open>
  C6. For an Open request \<open>R\<close> that the acting hospital \<open>P\<close> does not own,
  rejecting succeeds; afterwards the request has status Rejected and providing hospital
  \<open>P\<close>, every other request is as before, and the collection of hospitals, so
  every hospital's oxygen total, blood counts and organ offers, is exactly as before.
\<close>

theorem reject_sets_status_keeps_inventory:
  assumes "userId sess = Some P"
    and "requests s R = Some r"
    and "status r = Open"
    and "requestingHospital r \<noteq> P"
  shows "rejectRequest s sess R =
           Inr \<lparr>hospitals = hospitals s,
                requests = (requests s)
                  (R \<mapsto> r\<lparr>status := Rejected, providingHospital := Some P\<rparr>)\<rparr>"
  using assms by (simp add: rejectRequest_def Request_findByIdAndUpdate_def)

theorem reject_sets_status_keeps_inventory_witness:
  "userId session_B = Some 20
   \<and> requests ex_db 1 = Some ex_blood_request
   \<and> status ex_blood_request = Open
   \<and> requestingHospital ex_blood_request \<noteq> 20
   \<and> rejectRequest ex_db session_B 1 =
       Inr \<lparr>hospitals = hospitals ex_db,
            requests = (requests ex_db)
              (1 \<mapsto> ex_blood_request\<lparr>status := Rejected, providingHospital := Some 20\<rparr>)\<rparr>"
proof -
  have u: "userId session_B = Some 20" by (simp add: session_B_def)
  have q: "requests ex_db 1 = Some ex_blood_request" by (simp add: ex_db_def)
  have o: "status ex_blood_request = Open" by (simp add: ex_blood_request_def ex_request_def)
  have n: "requestingHospital ex_blood_request \<noteq> 20"
    by (simp add: ex_blood_request_def ex_request_def)
  show ?thesis
    using reject_sets_status_keeps_inventory [OF u q o n] u q o n by simp
qed

section \<open>Finalizing a request\<close>

text \<open>
  C7. For a finalize by \<open>P\<close> on request id \<open>R\<close> with target status
  \<open>fs\<close>, the checks run in this order and the first that applies decides: NotFound
  when no request has id \<open>R\<close>; Forbidden when \<open>P\<close> is not the request's
  requesting hospital; InvalidArgument when \<open>fs\<close> is not \<open>'Closed'\<close>.
  Otherwise the call succeeds and writes status Closed on that request and nothing else:
  the hospitals, so all inventory, are as before.
\<close>

theorem finalize_outcomes:
  assumes "userId sess = Some P"
  shows "(requests s R = None \<longrightarrow> finalizeRequest s sess R fs = Inl NotFound)
       \<and> (\<forall>r. requests s R = Some r \<and> requestingHospital r \<noteq> P \<longrightarrow>
              finalizeRequest s sess R fs = Inl Forbidden)
       \<and> (\<forall>r. requests s R = Some r \<and> requestingHospital r = P \<and> fs \<noteq> Some ''Closed'' \<longrightarrow>
              finalizeRequest s sess R fs = Inl InvalidArgument)
       \<and> (\<forall>r. requests s R = Some r \<and> requestingHospital r = P \<and> fs = Some ''Closed'' \<longrightarrow>
              finalizeRequest s sess R fs =
                Inr \<lparr>hospitals = hospitals s, requests = (requests s)(R \<mapsto> r\<lparr>status := Closed\<rparr>)\<rparr>)"
  using assms by (simp add: finalizeRequest_def Request_findByIdAndUpdate_def)

theorem finalize_outcomes_witness:
  "userId session_A = Some 10 \<and> userId session_B = Some 20
   \<and> requests ex_db 7 = None
   \<and> finalizeRequest ex_db session_A 7 (Some ''Closed'') = Inl NotFound
   \<and> requests ex_db 1 = Some ex_blood_request
   \<and> requestingHospital ex_blood_request = 10
   \<and> finalizeRequest ex_db session_B 1 (Some ''Closed'') = Inl Forbidden
   \<and> finalizeRequest ex_db session_A 1 (Some ''Accepted'') = Inl InvalidArgument
   \<and> finalizeRequest ex_db session_A 1 None = Inl InvalidArgument
   \<and> finalizeRequest ex_db session_A 1 (Some ''Closed'') =
       Inr \<lparr>hospitals = hospitals ex_db,
            requests = (requests ex_db)(1 \<mapsto> ex_blood_request\<lparr>status := Closed\<rparr>)\<rparr>"
proof -
  have a: "userId session_A = Some 10" by (simp add: session_A_def)
  have b: "userId session_B = Some 20" by (simp add: session_B_def)
  have m: "requests ex_db 7 = None" by (simp add: ex_db_def)
  have q: "requests ex_db 1 = Some ex_blood_request" by (simp add: ex_db_def)
  have o: "requestingHospital ex_blood_request = 10"
    by (simp add: ex_blood_request_def ex_request_def)
  show ?thesis
    using finalize_outcomes [OF a, of ex_db 7 "Some ''Closed''"]
      finalize_outcomes [OF b, of ex_db 1 "Some ''Closed''"]
      finalize_outcomes [OF a, of ex_db 1 "Some ''Accepted''"]
      finalize_outcomes [OF a, of ex_db 1 None]
      finalize_outcomes [OF a, of ex_db 1 "Some ''Closed''"]
      a b m q o
    by simp
qed

section \<open>An admin as provider\<close>

text \<open>
  The accept and reject routes ask only for a logged-in session and never read its
  user type, unlike the hospital and admin routes, which test it first. So for an
  admin \<open>A\<close>, whose id is no hospital's, and an Open request that \<open>A\<close> does not
  own (for accept: an Organ request, or one with a quantity), neither call is refused:
  the request becomes Accepted, or Rejected, with \<open>A\<close> written as its providing
  hospital, and no hospital's inventory changes.
\<close>

lemma admin_is_not_refused:
  assumes "userType sess = AdminUser"
    and "userId sess = Some A"
    and "hospitals s A = None"
    and "requests s R = Some r"
    and "status r = Open"
    and "requestingHospital r \<noteq> A"
    and "requestType r = Organ \<or> quantity (details r) \<noteq> None"
  shows "acceptRequest s sess R =
           Inr \<lparr>hospitals = hospitals s,
                requests = (requests s)
                  (R \<mapsto> r\<lparr>status := Accepted, providingHospital := Some A\<rparr>)\<rparr>
       \<and> rejectRequest s sess R =
           Inr \<lparr>hospitals = hospitals s,
                requests = (requests s)
                  (R \<mapsto> r\<lparr>status := Rejected, providingHospital := Some A\<rparr>)\<rparr>"
proof -
  obtain f where "castUpdate (acceptUpdate r) = Inr f"
  proof (cases "requestType r")
    case Organ
    then show ?thesis using that by (simp add: acceptUpdate_def)
  next
    case Oxygen
    with assms(7) obtain q where "quantity (details r) = Some q" by auto
    with Oxygen show ?thesis using that by (simp add: acceptUpdate_def)
  next
    case Blood
    with assms(7) obtain q where q: "quantity (details r) = Some q" by auto
    show ?thesis
    proof (cases "bloodGroup (details r)")
      case None
      with Blood q show ?thesis using that by (simp add: acceptUpdate_def)
    next
      case (Some g)
      with Blood q show ?thesis using that by (simp add: acceptUpdate_def)
    qed
  qed
  then show ?thesis
    using assms(2-6)
    by (simp add: acceptRequest_def rejectRequest_def Hospital_findByIdAndUpdate_def
        Request_findByIdAndUpdate_def)
qed

text \<open>
  C8. An admin must not act as a provider, and the code lets it: in the concrete
  database the admin, whose session has the user type admin and the id 99, accepts the
  Open kidney request 3 and rejects the Open oxygen request 2. Neither call fails; each
  answers 200 and records the admin's id 99 as the providing hospital of the request.
\<close>

theorem admin_acts_as_provider:
  "userType session_admin = AdminUser
   \<and> isl (acceptRequest ex_db session_admin 3) = False
   \<and> map_option status (requests (projr (acceptRequest ex_db session_admin 3)) 3) = Some Accepted
   \<and> map_option providingHospital (requests (projr (acceptRequest ex_db session_admin 3)) 3)
       = Some (Some 99)
   \<and> isl (rejectRequest ex_db session_admin 2) = False
   \<and> map_option status (requests (projr (rejectRequest ex_db session_admin 2)) 2) = Some Rejected
   \<and> map_option providingHospital (requests (projr (rejectRequest ex_db session_admin 2)) 2)
       = Some (Some 99)"
  by (simp add: acceptRequest_def rejectRequest_def acceptUpdate_def
      Hospital_findByIdAndUpdate_def Request_findByIdAndUpdate_def ex_defs)

section \<open>Two accepts of one request at the same time\<close>

text \<open>
  Served without interruption, the three store calls of one handler do what
  \<open>acceptRequest\<close> does.
\<close>

lemma three_steps_are_acceptRequest:
  "interleave sa ra sb rb [First, First, First] s AwaitFind pb =
     (case acceptRequest s sa ra of
        Inl e \<Rightarrow> (s, Responded (Some e), pb)
      | Inr s' \<Rightarrow> (s', Responded None, pb))"
  by (simp add: acceptRequest_def split: option.splits sum.splits)

text \<open>
  C9. Two hospitals must not both accept one request, and the code lets them. B and C
  both send an accept of the Open request 1 of the concrete database, and C's
  \<open>findById\<close> is served before B's update of the request: the schedule is B's
  read, C's read, B's two writes, C's two writes. Both handlers have then read the
  status Open, both answer 200 and none answers InvalidState; B's O+ count has gone from
  10 to 7 and C's from 1 to -2, so two inventories are debited for one request; and the
  request is Accepted with providing hospital C, the last writer.
\<close>

theorem concurrent_accepts_both_succeed:
  "interleave session_B 1 session_C 1 [First, Second, First, First, Second, Second]
     ex_db AwaitFind AwaitFind =
     (\<lparr>hospitals = (hospitals ex_db)
         (20 \<mapsto> ex_hospital ''B''
                  (ex_details_B\<lparr>bloodAvailability := (bloodAvailability ex_details_B)(OPos := 7)\<rparr>),
          30 \<mapsto> ex_hospital ''C''
                  (ex_details_C\<lparr>bloodAvailability := (bloodAvailability ex_details_C)(OPos := - 2)\<rparr>)),
       requests = (requests ex_db)
         (1 \<mapsto> ex_blood_request\<lparr>status := Accepted, providingHospital := Some 30\<rparr>)\<rparr>,
      Responded None, Responded None)"
  by (simp add: acceptUpdate_def Hospital_findByIdAndUpdate_def
      Request_findByIdAndUpdate_def ex_defs)

section \<open>An organ request that the provider cannot serve\<close>

text \<open>
  C10. Let \<open>R\<close> be an Open Organ request that the acting hospital \<open>P\<close>, a
  stored hospital, does not own. If no offer of \<open>P\<close> matches the request's organ
  name and blood group, accepting still succeeds: the hospitals, and with them
  \<open>P\<close>'s inventory, are as before, and the request is Accepted with providing
  hospital \<open>P\<close>.
\<close>

theorem accept_organ_without_matching_offer:
  assumes "userId sess = Some P"
    and "requests s R = Some r"
    and "status r = Open"
    and "requestingHospital r \<noteq> P"
    and "requestType r = Organ"
    and "hospitals s P = Some h"
    and "\<forall>x \<in> set (organAvailability (hdetails h)).
           \<not> offerMatches (organName (details r)) (bloodGroup (details r)) x"
  shows "acceptRequest s sess R =
           Inr \<lparr>hospitals = hospitals s,
                requests = (requests s)(R \<mapsto> r\<lparr>status := Accepted, providingHospital := Some P\<rparr>)\<rparr>"
proof -
  have f: "filter (\<lambda>x. \<not> offerMatches (organName (details r)) (bloodGroup (details r)) x)
             (organAvailability (hdetails h)) = organAvailability (hdetails h)"
    using assms(7) by (simp add: filter_id_conv)
  have m: "(hospitals s)(P \<mapsto> h) = hospitals s"
    using assms(6) by (rule map_upd_triv)
  show ?thesis
    using assms(1-6)
    by (simp add: acceptRequest_def acceptUpdate_def Hospital_findByIdAndUpdate_def
        Request_findByIdAndUpdate_def f m)
qed

text \<open>B holds kidney and liver offers only, and accepts the request for a heart.\<close>

theorem accept_organ_without_matching_offer_witness:
  "userId session_B = Some 20
   \<and> requests ex_db 4 = Some ex_heart_request
   \<and> status ex_heart_request = Open
   \<and> requestingHospital ex_heart_request \<noteq> 20
   \<and> requestType ex_heart_request = Organ
   \<and> hospitals ex_db 20 = Some (ex_hospital ''B'' ex_details_B)
   \<and> list_all (\<lambda>x. \<not> offerMatches (Some Heart) (Some OPos) x) (organAvailability ex_details_B)
   \<and> acceptRequest ex_db session_B 4 =
        Inr \<lparr>hospitals = hospitals ex_db,
             requests = (requests ex_db)
               (4 \<mapsto> ex_heart_request\<lparr>status := Accepted, providingHospital := Some 20\<rparr>)\<rparr>"
proof -
  have u: "userId session_B = Some 20" by (simp add: session_B_def)
  have q: "requests ex_db 4 = Some ex_heart_request" by (simp add: ex_db_def)
  have o: "status ex_heart_request = Open" by (simp add: ex_heart_request_def ex_request_def)
  have n: "requestingHospital ex_heart_request \<noteq> 20"
    by (simp add: ex_heart_request_def ex_request_def)
  have k: "requestType ex_heart_request = Organ"
    by (simp add: ex_heart_request_def ex_request_def)
  have h: "hospitals ex_db 20 = Some (ex_hospital ''B'' ex_details_B)" by (simp add: ex_db_def)
  have d: "organName (details ex_heart_request) = Some Heart
           \<and> bloodGroup (details ex_heart_request) = Some OPos"
    by (simp add: ex_heart_request_def ex_request_def)
  have l: "list_all (\<lambda>x. \<not> offerMatches (Some Heart) (Some OPos) x) (organAvailability ex_details_B)"
    by (simp add: ex_details_B_def ex_offer_def offerMatches_def)
  have x: "\<forall>x \<in> set (organAvailability (hdetails (ex_hospital ''B'' ex_details_B))).
             \<not> offerMatches (organName (details ex_heart_request))
                 (bloodGroup (details ex_heart_request)) x"
    using l by (simp add: d ex_hospital_def list_all_iff)
  show ?thesis
    using accept_organ_without_matching_offer [OF u q o n k h x] u q o n k h l by simp
qed


end
